theory Spec2Isabelle
  imports Complex_Main
begin

section \<open>The shooter component of pyinfiniterecharge\<close>

text \<open>
  A shallow embedding of \<^verbatim>\<open>components/shooter.py\<close>: the class \<^verbatim>\<open>Shooter\<close>, a magicbot
  component that turns a distance into flywheel speeds, pushes the speeds to two motor
  controllers and pulses a loading piston.

  Conventions of the embedding.
  \<^item> Python floats (and the ints mixed with them) are real numbers; NaN and the
    infinities are not modelled. Comparisons, and the arithmetic of the velocity checks,
    are exact. The one place where the program rounds results that it stores is the
    interpolation inside \<^verbatim>\<open>numpy.interp\<close>: \<open>set_range\<close> is the method with that arithmetic
    exact, \<open>set_range_double\<close> is the method with every operation of the interpolation
    rounded to IEEE 754 binary64 as numpy computes it. The two differ in nothing else,
    and they agree wherever no arithmetic is done (outside the table and at its
    breakpoints).
  \<^item> The component's own attributes are the record \<open>shooter\<close>. The class attributes
    \<^verbatim>\<open>ranges\<close> and \<^verbatim>\<open>centre_rpms\<close>, which the methods read through \<^verbatim>\<open>self\<close>, are fields of
    the record as well; the class body fixes them to \<open>Shooter_ranges\<close> and
    \<open>Shooter_centre_rpms\<close>.
  \<^item> The injected hardware is outside the program. What it reports (the two encoder
    velocities, the solenoid's \<^verbatim>\<open>get()\<close>) is a record \<open>hardware\<close> given to every query; what
    the component tells it to do is a list of \<open>hw_call\<close>s, in the order of the calls, which
    every method returns next to the new state.
  \<^item> The handles that \<^verbatim>\<open>setup()\<close> stores (encoders, PID controllers) are taken to exist:
    magicbot runs \<^verbatim>\<open>setup()\<close> once, before any other method of the component.
  \<^item> A Python exception is a value of type \<open>error\<close>, returned in \<open>Inl\<close>.
\<close>

subsection \<open>Data\<close>

datatype error = IndexError | ValueError

datatype motor = Centre | Outer

datatype idle_mode = kCoast | kBrake

datatype hw_call =
    StopMotor motor
  | SetPulseDuration real
  | SetIdleMode motor idle_mode
  | SetInverted motor bool
  | GetEncoder motor
  | GetPIDController motor
  | SetP motor real
  | SetI motor real
  | SetD motor real
  | SetFF motor real
  | SetReference motor real
  | StartPulse

record shooter =
  ranges :: "real list"
  centre_rpms :: "real list"
  outer_rpm :: real
  centre_rpm :: real
  inject :: bool
  in_range :: bool
  velocity_tolerance :: real

record hardware =
  centre_encoder_velocity :: real
  outer_encoder_velocity :: real
  loading_piston_get :: bool

definition Shooter_ranges :: "real list" where
  "Shooter_ranges = [7, 8, 9, 10, 11]"

definition Shooter_centre_rpms :: "real list" where
  "Shooter_centre_rpms = [880, 1120, 1500, 2150, 2400]"

subsection \<open>Construction\<close>

text \<open>
  \<^verbatim>\<open>__init__(self)\<close> takes no argument and looks at no table: it assigns the five instance
  attributes. \<open>Shooter_init rs cs\<close> is the instance of a class whose body binds
  \<^verbatim>\<open>ranges = rs\<close> and \<^verbatim>\<open>centre_rpms = cs\<close>; \<open>Shooter_new\<close> is the instance of the class as
  written.
\<close>

definition Shooter_init :: "real list \<Rightarrow> real list \<Rightarrow> error + shooter" where
  "Shooter_init rs cs =
     Inr \<lparr>ranges = rs, centre_rpms = cs,
          outer_rpm = 0, centre_rpm = 0,
          inject = False, in_range = False, velocity_tolerance = 50\<rparr>"

definition Shooter_new :: shooter where
  "Shooter_new =
     \<lparr>ranges = Shooter_ranges, centre_rpms = Shooter_centre_rpms,
      outer_rpm = 0, centre_rpm = 0,
      inject = False, in_range = False, velocity_tolerance = 50\<rparr>"

subsection \<open>numpy.interp\<close>

text \<open>
  \<^verbatim>\<open>numpy.interp(x, xp, fp)\<close> is a library function, not code of the repository. The model
  follows its implementation for a scalar \<open>x\<close> and the default \<^verbatim>\<open>left\<close> and \<^verbatim>\<open>right\<close>:
  \<^item> an empty \<open>xp\<close>, or \<open>fp\<close> and \<open>xp\<close> of different lengths, raise \<^verbatim>\<open>ValueError\<close>;
  \<^item> \<open>x\<close> above the last sample point gives the last value, \<open>x\<close> below the first sample
    point gives the first value;
  \<^item> otherwise, with \<open>j\<close> the index such that \<open>xp[j] \<le> x < xp[j+1]\<close> (or the last index,
    when \<open>x\<close> is the last sample point), the result is \<open>fp[j]\<close> when \<open>j\<close> is the last index
    or \<open>x = xp[j]\<close>, and \<open>slope * (x - xp[j]) + fp[j]\<close> with
    \<open>slope = (fp[j+1] - fp[j]) / (xp[j+1] - xp[j])\<close> otherwise.
  numpy finds \<open>j\<close> by binary search; on an increasing \<open>xp\<close> the scan from the left of
  \<open>interp_from\<close> finds the same index. \<open>interp_from x (xp[j], fp[j]) rest\<close> is the scan at
  index \<open>j\<close>, with \<open>rest\<close> the sample points after \<open>j\<close>.
\<close>

fun interp_from :: "real \<Rightarrow> real \<times> real \<Rightarrow> (real \<times> real) list \<Rightarrow> real" where
  "interp_from x (x0, y0) [] = y0"
| "interp_from x (x0, y0) ((x1, y1) # ps) =
     (if x < x1
      then (if x0 = x then y0 else (y1 - y0) / (x1 - x0) * (x - x0) + y0)
      else interp_from x (x1, y1) ps)"

definition interp :: "real \<Rightarrow> real list \<Rightarrow> real list \<Rightarrow> error + real" where
  "interp x xp fp =
     (if xp = [] then Inl ValueError
      else if length fp \<noteq> length xp then Inl ValueError
      else if x > last xp then Inr (last fp)
      else if x < hd xp then Inr (hd fp)
      else Inr (interp_from x (hd xp, hd fp) (zip (tl xp) (tl fp))))"

subsection \<open>The methods\<close>

text \<open>
  \<^verbatim>\<open>set_range\<close>: \<^verbatim>\<open>self.ranges[0]\<close> and \<^verbatim>\<open>self.ranges[-1]\<close> raise \<^verbatim>\<open>IndexError\<close> on an empty
  tuple. Python's \<^verbatim>\<open>min\<close> and \<^verbatim>\<open>max\<close> of two real numbers are \<open>min\<close> and \<open>max\<close>; the
  parameter \<^verbatim>\<open>dist\<close> is \<open>distance\<close> here (\<open>dist\<close> is the metric of HOL). An exception
  of \<^verbatim>\<open>interp\<close> leaves the method before the two targets are assigned.
\<close>

definition set_range :: "real \<Rightarrow> shooter \<Rightarrow> error + shooter" where
  "set_range distance s =
     (if ranges s = [] then Inl IndexError
      else
        let (clamped, s') =
              (if hd (ranges s) \<le> distance \<and> distance \<le> last (ranges s)
               then (distance, s\<lparr>in_range := True\<rparr>)
               else (min (last (ranges s)) (max distance (hd (ranges s))),
                     s\<lparr>in_range := False\<rparr>))
        in case interp clamped (ranges s) (centre_rpms s) of
             Inl e \<Rightarrow> Inl e
           | Inr rpm \<Rightarrow> Inr (s'\<lparr>centre_rpm := rpm, outer_rpm := 5000\<rparr>))"

text \<open>
  \<^verbatim>\<open>on_enable\<close> stops the centre motor, then the outer motor, and assigns nothing.
\<close>

definition on_enable :: "shooter \<Rightarrow> shooter \<times> hw_call list" where
  "on_enable s = (s, [StopMotor Centre, StopMotor Outer])"

text \<open>
  \<^verbatim>\<open>setup\<close> configures the hardware; the four handles it stores are the hardware of the
  model, so the state of the record is unchanged. (The method is \<open>Shooter_setup\<close> here:
  its own name is a keyword of Isabelle.)
\<close>

definition Shooter_setup :: "shooter \<Rightarrow> shooter \<times> hw_call list" where
  "Shooter_setup s =
     (s, [SetPulseDuration 0.5,
          SetIdleMode Outer kCoast, SetIdleMode Centre kCoast,
          SetInverted Outer False, SetInverted Centre True,
          GetEncoder Outer, GetEncoder Centre,
          GetPIDController Centre, GetPIDController Outer,
          SetP Outer (0.0279 / 60), SetI Outer (1 / 1000000), SetD Outer 0,
          SetFF Outer 0.000156,
          SetP Centre (0.0247 / 60), SetI Centre (1 / 1000000), SetD Centre 0,
          SetFF Centre 0.000156])"

text \<open>
  \<^verbatim>\<open>execute\<close> sends the two targets (centre first) and then serves the latch \<^verbatim>\<open>inject\<close>.
\<close>

definition execute :: "shooter \<Rightarrow> shooter \<times> hw_call list" where
  "execute s =
     (let refs = [SetReference Centre (centre_rpm s), SetReference Outer (outer_rpm s)]
      in if inject s then (s\<lparr>inject := False\<rparr>, refs @ [StartPulse])
         else (s, refs))"

definition fire :: "shooter \<Rightarrow> shooter" where
  "fire s = s\<lparr>inject := True\<rparr>"

subsection \<open>The queries\<close>

definition is_at_speed :: "shooter \<Rightarrow> hardware \<Rightarrow> bool" where
  "is_at_speed s hw \<longleftrightarrow>
     \<bar>centre_rpm s - centre_encoder_velocity hw\<bar> \<le> velocity_tolerance s
     \<and> \<bar>outer_rpm s - outer_encoder_velocity hw\<bar> \<le> velocity_tolerance s"

definition get_centre_velocity :: "shooter \<Rightarrow> hardware \<Rightarrow> real" where
  "get_centre_velocity s hw = centre_encoder_velocity hw"

definition get_outer_velocity :: "shooter \<Rightarrow> hardware \<Rightarrow> real" where
  "get_outer_velocity s hw = outer_encoder_velocity hw"

definition is_firing :: "shooter \<Rightarrow> hardware \<Rightarrow> bool" where
  "is_firing s hw \<longleftrightarrow> \<not> loading_piston_get hw"

definition is_in_range :: "shooter \<Rightarrow> bool" where
  "is_in_range s \<longleftrightarrow> in_range s"

definition is_ready :: "shooter \<Rightarrow> hardware \<Rightarrow> bool" where
  "is_ready s hw \<longleftrightarrow> is_in_range s \<and> is_at_speed s hw \<and> \<not> is_firing s hw"

subsection \<open>Sequences of calls\<close>

text \<open>
  The calls that the framework and the other components make on a shooter, those that
  assign or command something. \<open>step\<close> is one call, \<open>run\<close> a sequence of calls from the
  left, ending at the first exception; the hardware calls of the sequence are appended in
  order. \<open>reachable\<close> are the states of a shooter of the class as written, after any
  sequence of calls that raised nothing.
\<close>

datatype shooter_call = OnEnable | Setup | Execute | SetRange real | Fire

fun step :: "shooter_call \<Rightarrow> shooter \<Rightarrow> error + shooter \<times> hw_call list" where
  "step OnEnable s = Inr (on_enable s)"
| "step Setup s = Inr (Shooter_setup s)"
| "step Execute s = Inr (execute s)"
| "step (SetRange d) s = (case set_range d s of Inl e \<Rightarrow> Inl e | Inr s' \<Rightarrow> Inr (s', []))"
| "step Fire s = Inr (fire s, [])"

fun run :: "shooter_call list \<Rightarrow> shooter \<Rightarrow> error + shooter \<times> hw_call list" where
  "run [] s = Inr (s, [])"
| "run (m # ms) s =
     (case step m s of
        Inl e \<Rightarrow> Inl e
      | Inr (s', out) \<Rightarrow>
          (case run ms s' of
             Inl e \<Rightarrow> Inl e
           | Inr (s'', out') \<Rightarrow> Inr (s'', out @ out')))"

inductive reachable :: "shooter \<Rightarrow> bool" where
  reachable_new: "reachable Shooter_new"
| reachable_step: "reachable s \<Longrightarrow> step m s = Inr (s', out) \<Longrightarrow> reachable s'"

text \<open>The number of \<^verbatim>\<open>startPulse()\<close> calls, and of calls equal to a given one, in a trace.\<close>

definition calls_of :: "hw_call \<Rightarrow> hw_call list \<Rightarrow> nat" where
  "calls_of c out = length (filter (\<lambda>c'. c' = c) out)"

definition is_SetReference :: "hw_call \<Rightarrow> bool" where
  "is_SetReference c = (case c of SetReference m v \<Rightarrow> True | _ \<Rightarrow> False)"

subsection \<open>Piecewise-linear interpolation, as the specification words it\<close>

text \<open>
  The value at \<open>d\<close> of the straight line through the breakpoints \<open>i\<close> and \<open>i + 1\<close> of the
  tables, and the interpolation of the specification: the value at the nearest end when
  \<open>d\<close> is at or beyond an edge, else the line between the two breakpoints that bracket
  \<open>d\<close>, the lower of which is the last breakpoint not above \<open>d\<close>.
\<close>

definition segment_value :: "real list \<Rightarrow> real list \<Rightarrow> nat \<Rightarrow> real \<Rightarrow> real" where
  "segment_value xs ys i d =
     ys ! i + (d - xs ! i) * (ys ! Suc i - ys ! i) / (xs ! Suc i - xs ! i)"

definition linear_interpolate :: "real \<Rightarrow> real list \<Rightarrow> real list \<Rightarrow> real" where
  "linear_interpolate d xs ys =
     (if d \<le> hd xs then hd ys
      else if last xs \<le> d then last ys
      else segment_value xs ys (length (takeWhile (\<lambda>x. x \<le> d) xs) - 1) d)"

text \<open>
  The interpolation over the tables of the class in closed form, one line per interval
  of the range table (the slopes are 240, 380, 650 and 250 rpm per unit of distance).
\<close>

definition centre_curve :: "real \<Rightarrow> real" where
  "centre_curve x =
     (if x < 8 then 880 + 240 * (x - 7)
      else if x < 9 then 1120 + 380 * (x - 8)
      else if x < 10 then 1500 + 650 * (x - 9)
      else if x < 11 then 2150 + 250 * (x - 10)
      else 2400)"

subsection \<open>Double-precision arithmetic\<close>

text \<open>
  IEEE 754 binary64 with rounding to nearest, ties to even, as the C code of
  \<^verbatim>\<open>numpy.interp\<close> computes on \<^verbatim>\<open>npy_double\<close>. A double is a real number \<open>m * 2 ^ e\<close> with
  \<open>\<bar>m\<bar> < 2 ^ 53\<close> and \<open>e \<ge> -1074\<close>. \<open>bits n\<close> is the number of binary digits of \<open>n\<close>;
  \<open>ulp x\<close> is the spacing of the doubles around \<open>x\<close>, which is \<open>2 ^ -1074\<close> for
  \<open>\<bar>x\<bar> < 2 ^ -1021\<close> (the subnormal numbers and the first binade of the normal ones) and
  \<open>2 ^ (e - 52)\<close> for \<open>2 ^ e \<le> \<bar>x\<bar> < 2 ^ (e + 1)\<close> above;
  \<open>fl x\<close> is the multiple of \<open>ulp x\<close> nearest to \<open>x\<close>, the even one of two that are equally
  near. Overflow to infinity is not modelled: the numbers of this program stay below
  \<open>2 ^ 13\<close>.
\<close>

fun bits :: "nat \<Rightarrow> nat" where
  "bits n = (if n = 0 then 0 else Suc (bits (n div 2)))"

declare bits.simps [simp del]

definition round_even :: "real \<Rightarrow> int" where
  "round_even q =
     (let f = \<lfloor>q\<rfloor>; r = q - of_int f
      in if r < 1 / 2 then f else if 1 / 2 < r then f + 1
         else if even f then f else f + 1)"

definition ulp :: "real \<Rightarrow> real" where
  "ulp x = 2 ^ (bits (nat \<lfloor>\<bar>x\<bar> * 2 ^ 1074\<rfloor>) - 53) / 2 ^ 1074"

definition fl :: "real \<Rightarrow> real" where
  "fl x = of_int (round_even (x / ulp x)) * ulp x"

text \<open>
  \<^verbatim>\<open>numpy.interp\<close> and \<^verbatim>\<open>set_range\<close> once more, with every operation of
  \<^verbatim>\<open>slope*(x_val - dx[j]) + dy[j]\<close>, \<^verbatim>\<open>slope = (dy[j+1] - dy[j]) / (dx[j+1] - dx[j])\<close>,
  rounded. The tables hold integers, which the conversion to \<^verbatim>\<open>float64\<close> arrays keeps.
\<close>

fun interp_from_double :: "real \<Rightarrow> real \<times> real \<Rightarrow> (real \<times> real) list \<Rightarrow> real" where
  "interp_from_double x (x0, y0) [] = y0"
| "interp_from_double x (x0, y0) ((x1, y1) # ps) =
     (if x < x1
      then (if x0 = x then y0
            else fl (fl (fl (fl (y1 - y0) / fl (x1 - x0)) * fl (x - x0)) + y0))
      else interp_from_double x (x1, y1) ps)"

definition interp_double :: "real \<Rightarrow> real list \<Rightarrow> real list \<Rightarrow> error + real" where
  "interp_double x xp fp =
     (if xp = [] then Inl ValueError
      else if length fp \<noteq> length xp then Inl ValueError
      else if x > last xp then Inr (last fp)
      else if x < hd xp then Inr (hd fp)
      else Inr (interp_from_double x (hd xp, hd fp) (zip (tl xp) (tl fp))))"

definition set_range_double :: "real \<Rightarrow> shooter \<Rightarrow> error + shooter" where
  "set_range_double distance s =
     (if ranges s = [] then Inl IndexError
      else
        let (clamped, s') =
              (if hd (ranges s) \<le> distance \<and> distance \<le> last (ranges s)
               then (distance, s\<lparr>in_range := True\<rparr>)
               else (min (last (ranges s)) (max distance (hd (ranges s))),
                     s\<lparr>in_range := False\<rparr>))
        in case interp_double clamped (ranges s) (centre_rpms s) of
             Inl e \<Rightarrow> Inl e
           | Inr rpm \<Rightarrow> Inr (s'\<lparr>centre_rpm := rpm, outer_rpm := 5000\<rparr>))"

text \<open>
  The rounded interpolation over the tables of the class in closed form; the slopes are
  computed without rounding error.
\<close>

definition centre_curve_double :: "real \<Rightarrow> real" where
  "centre_curve_double x =
     (if x < 8 then (if x = 7 then 880 else fl (fl (240 * fl (x - 7)) + 880))
      else if x < 9 then (if x = 8 then 1120 else fl (fl (380 * fl (x - 8)) + 1120))
      else if x < 10 then (if x = 9 then 1500 else fl (fl (650 * fl (x - 9)) + 1500))
      else if x < 11 then (if x = 10 then 2150 else fl (fl (250 * fl (x - 10)) + 2150))
      else 2400)"

text \<open>
  The value at \<open>d\<close> of the line through the breakpoints \<open>i\<close> and \<open>i + 1\<close> as
  \<^verbatim>\<open>numpy.interp\<close> evaluates it in double arithmetic.
\<close>

definition segment_value_double :: "real list \<Rightarrow> real list \<Rightarrow> nat \<Rightarrow> real \<Rightarrow> real" where
  "segment_value_double xs ys i d =
     fl (fl (fl (fl (ys ! Suc i - ys ! i) / fl (xs ! Suc i - xs ! i)) * fl (d - xs ! i))
         + ys ! i)"

subsection \<open>The solenoid of the loading piston\<close>

text \<open>
  \<^verbatim>\<open>wpilib.Solenoid\<close> is a library class, not code of the repository. The model follows its
  documentation. The state of a solenoid channel is whether its output is on; \<^verbatim>\<open>get()\<close>
  returns that state; a channel that nothing has switched on is off; \<^verbatim>\<open>startPulse()\<close>
  switches the output on for the pulse duration (0.5 s here, from \<^verbatim>\<open>setup()\<close>), after
  which the pneumatics module switches it off again. \<open>Solenoid_after out on\<close> is the output
  right after the hardware calls \<open>out\<close>, before a pulse among them has run out.
\<close>

definition Solenoid_initial :: bool where
  "Solenoid_initial = False"

fun Solenoid_after :: "hw_call list \<Rightarrow> bool \<Rightarrow> bool" where
  "Solenoid_after [] on = on"
| "Solenoid_after (StartPulse # cs) on = Solenoid_after cs True"
| "Solenoid_after (c # cs) on = Solenoid_after cs on"

definition Solenoid_get :: "bool \<Rightarrow> bool" where
  "Solenoid_get on = on"

section \<open>Properties\<close>

subsection \<open>The tables of the class\<close>

lemma interp_Shooter_tables:
  "7 \<le> x \<Longrightarrow> x \<le> 11 \<Longrightarrow>
   interp x Shooter_ranges Shooter_centre_rpms = Inr (centre_curve x)"
  by (simp add: interp_def Shooter_ranges_def Shooter_centre_rpms_def centre_curve_def)

lemma linear_interpolate_Shooter_tables:
  "7 \<le> x \<Longrightarrow> x \<le> 11 \<Longrightarrow>
   linear_interpolate x Shooter_ranges Shooter_centre_rpms = centre_curve x"
  by (auto simp add: linear_interpolate_def segment_value_def Shooter_ranges_def
      Shooter_centre_rpms_def centre_curve_def)

lemma segment_value_Shooter_tables:
  assumes "Suc i < length Shooter_ranges"
    and "Shooter_ranges ! i \<le> x" and "x \<le> Shooter_ranges ! Suc i"
  shows "segment_value Shooter_ranges Shooter_centre_rpms i x = centre_curve x"
proof -
  from assms(1) have "i = 0 \<or> i = 1 \<or> i = 2 \<or> i = 3"
    by (auto simp add: Shooter_ranges_def)
  then show ?thesis
    using assms(2,3)
    by (auto simp add: segment_value_def Shooter_ranges_def Shooter_centre_rpms_def
        centre_curve_def)
qed


lemma Shooter_ranges_ends:
  "Shooter_ranges \<noteq> []" "hd Shooter_ranges = 7" "last Shooter_ranges = 11"
  "Min (set Shooter_ranges) = 7" "Max (set Shooter_ranges) = 11"
  by (simp_all add: Shooter_ranges_def)


lemma set_range_Shooter_tables:
  assumes "ranges s = Shooter_ranges" and "centre_rpms s = Shooter_centre_rpms"
  shows "set_range d s =
     Inr (s\<lparr>in_range := (7 \<le> d \<and> d \<le> 11),
            centre_rpm := centre_curve (min 11 (max d 7)),
            outer_rpm := 5000\<rparr>)"
proof -
  have "7 \<le> min 11 (max d 7)" "min 11 (max d 7) \<le> (11::real)" by auto
  then have i: "interp (min 11 (max d 7)) Shooter_ranges Shooter_centre_rpms
      = Inr (centre_curve (min 11 (max d 7)))"
    by (rule interp_Shooter_tables)
  show ?thesis
  proof (cases "7 \<le> d \<and> d \<le> 11")
    case True
    then have "min 11 (max d 7) = d" by auto
    with i True show ?thesis
      by (simp add: set_range_def assms Shooter_ranges_ends)
  next
    case False
    with i show ?thesis
      by (auto simp add: set_range_def assms Shooter_ranges_ends)
  qed
qed

lemma step_frame:
  assumes "step m s = Inr (s', out)"
  shows "ranges s' = ranges s \<and> centre_rpms s' = centre_rpms s
    \<and> velocity_tolerance s' = velocity_tolerance s"
  using assms
  by (cases m)
    (auto simp add: on_enable_def Shooter_setup_def execute_def fire_def set_range_def
      Let_def split: if_splits sum.splits prod.splits)

lemma reachable_invariant:
  "reachable s \<Longrightarrow>
   ranges s = Shooter_ranges \<and> centre_rpms s = Shooter_centre_rpms
   \<and> velocity_tolerance s = 50"
proof (induction rule: reachable.induct)
  case reachable_new
  show ?case by (simp add: Shooter_new_def)
next
  case (reachable_step s m s' out)
  then show ?case using step_frame [of m s s' out] by simp
qed

lemma set_range_reachable:
  assumes "reachable s"
  shows "set_range d s =
     Inr (s\<lparr>in_range := (7 \<le> d \<and> d \<le> 11),
            centre_rpm := centre_curve (min 11 (max d 7)),
            outer_rpm := 5000\<rparr>)"
  using reachable_invariant [OF assms] by (simp add: set_range_Shooter_tables)

lemma step_reachable_total:
  assumes "reachable s"
  shows "\<exists>s' out. step m s = Inr (s', out)"
  by (cases m) (simp_all add: set_range_reachable [OF assms] on_enable_def
      Shooter_setup_def execute_def Let_def)



subsection \<open>Rounding\<close>

lemma bits_numeral [simp]:
  "bits 0 = 0" "bits 1 = 1" "bits (Suc 0) = 1"
  "bits (numeral (num.Bit0 n)) = Suc (bits (numeral n))"
  "bits (numeral (num.Bit1 n)) = Suc (bits (numeral n))"
  "bits (numeral num.One) = 1"
  by (simp_all add: bits.simps [of 0] bits.simps [of 1] bits.simps [of "Suc 0"]
      bits.simps [of "numeral (num.Bit0 n)"] bits.simps [of "numeral (num.Bit1 n)"]
      bits.simps [of "numeral num.One"] numeral_Bit0_div_2 numeral_Bit1_div_2)

lemma bits_le: "n < 2 ^ m \<Longrightarrow> bits n \<le> m"
proof (induction n arbitrary: m rule: bits.induct)
  case (1 n)
  show ?case
  proof (cases "n = 0")
    case True
    then show ?thesis by (simp add: bits.simps [of 0])
  next
    case False
    with "1.prems" obtain k where m: "m = Suc k"
      by (cases m) auto
    with "1.prems" have "n div 2 < 2 ^ k" by auto
    with "1.IH" [OF False] have "bits (n div 2) \<le> k" .
    with False m show ?thesis by (simp add: bits.simps [of n])
  qed
qed

lemma ulp_pos: "0 < ulp x"
  by (simp add: ulp_def)

lemma ulp_le:
  assumes "\<bar>x\<bar> < 2 ^ k"
  shows "ulp x \<le> 2 ^ k / 2 ^ 53"
proof -
  have "\<bar>x\<bar> * 2 ^ 1074 < 2 ^ k * 2 ^ 1074"
    using assms by simp
  then have "\<bar>x\<bar> * 2 ^ 1074 < 2 ^ (k + 1074)"
    by (simp add: power_add)
  then have "\<lfloor>\<bar>x\<bar> * 2 ^ 1074\<rfloor> < 2 ^ (k + 1074)"
    by (metis floor_less_iff of_int_numeral of_int_power)
  then have "nat \<lfloor>\<bar>x\<bar> * 2 ^ 1074\<rfloor> < 2 ^ (k + 1074)"
    by (simp add: nat_less_iff)
  then have "bits (nat \<lfloor>\<bar>x\<bar> * 2 ^ 1074\<rfloor>) \<le> k + 1074"
    by (rule bits_le)
  then have "bits (nat \<lfloor>\<bar>x\<bar> * 2 ^ 1074\<rfloor>) - 53 \<le> k + 1021"
    by simp
  then have "(2::real) ^ (bits (nat \<lfloor>\<bar>x\<bar> * 2 ^ 1074\<rfloor>) - 53) \<le> 2 ^ (k + 1021)"
    by (simp add: power_increasing)
  then have "ulp x \<le> 2 ^ (k + 1021) / 2 ^ 1074"
    by (simp add: ulp_def divide_right_mono)
  also have "(2::real) ^ (k + 1021) / 2 ^ 1074 = 2 ^ k / 2 ^ 53"
    by (simp add: power_add)
  finally show ?thesis .
qed

lemma round_even_error: "\<bar>of_int (round_even q) - q\<bar> \<le> 1 / 2"
  by (simp add: round_even_def Let_def)

lemma fl_error: "\<bar>fl x - x\<bar> \<le> ulp x / 2"
proof -
  have "fl x - x = (of_int (round_even (x / ulp x)) - x / ulp x) * ulp x"
    using ulp_pos [of x] by (simp add: fl_def field_simps)
  then have "\<bar>fl x - x\<bar> = \<bar>of_int (round_even (x / ulp x)) - x / ulp x\<bar> * ulp x"
    using ulp_pos [of x] by (simp add: abs_mult)
  also have "\<dots> \<le> 1 / 2 * ulp x"
    using round_even_error [of "x / ulp x"] ulp_pos [of x]
    by (intro mult_right_mono) simp_all
  finally show ?thesis by simp
qed

lemma fl_error_below:
  assumes "\<bar>x\<bar> < 2 ^ k"
  shows "\<bar>fl x - x\<bar> \<le> 2 ^ k / 2 ^ 54"
  using fl_error [of x] ulp_le [OF assms] by simp

lemma fl_numerals:
  "fl 0 = 0" "fl 1 = 1" "fl 240 = 240" "fl 380 = 380" "fl 650 = 650" "fl 250 = 250"
  by (simp_all add: fl_def ulp_def round_even_def Let_def)

lemma fl_line_error:
  assumes a: "0 \<le> a" "a \<le> 650" and t: "0 \<le> t" "t < 1" and y: "0 \<le> y" "y \<le> 2150"
  shows "\<bar>fl (fl (a * fl t) + y) - (a * t + y)\<bar> \<le> 1 / 2 ^ 41"
proof -
  define p where "p = a * fl t"
  define q where "q = a * t"
  have "\<bar>t\<bar> < 2 ^ 0" using t by simp
  from fl_error_below [OF this] have e1: "\<bar>fl t - t\<bar> \<le> 1 / 2 ^ 54" by simp
  then have ft: "\<bar>fl t\<bar> \<le> 1 + 1 / 2 ^ 54" using t by (simp; argo)
  have "\<bar>p\<bar> = a * \<bar>fl t\<bar>" using a by (simp add: p_def abs_mult)
  also have "\<dots> \<le> 650 * (1 + 1 / 2 ^ 54)"
    using a ft by (intro mult_mono) simp_all
  finally have p0: "\<bar>p\<bar> \<le> 650 * (1 + 1 / 2 ^ 54)" .
  then have "\<bar>p\<bar> < 2 ^ 10" by (simp; argo)
  from fl_error_below [OF this]
  have e2: "\<bar>fl p - p\<bar> \<le> 1 / 2 ^ 44" by simp
  have "\<bar>fl p + y\<bar> < 2 ^ 12"
    using e2 p0 y by (simp; argo)
  from fl_error_below [OF this]
  have e3: "\<bar>fl (fl p + y) - (fl p + y)\<bar> \<le> 1 / 2 ^ 42" by simp
  have "\<bar>p - q\<bar> = a * \<bar>fl t - t\<bar>"
    using a by (simp add: p_def q_def abs_mult flip: right_diff_distrib)
  also have "\<dots> \<le> 650 * (1 / 2 ^ 54)"
    using a e1 by (intro mult_mono) simp_all
  finally have e4: "\<bar>p - q\<bar> \<le> 650 * (1 / 2 ^ 54)" .
  from e2 e3 e4 have "\<bar>fl (fl p + y) - (q + y)\<bar> \<le> 1 / 2 ^ 41" by (simp; argo)
  then show ?thesis by (simp add: p_def q_def)
qed

lemma interp_double_Shooter_tables:
  assumes "7 \<le> x" and "x \<le> 11"
  shows "interp_double x Shooter_ranges Shooter_centre_rpms = Inr (centre_curve_double x)"
  using assms
  by (auto simp add: interp_double_def Shooter_ranges_def Shooter_centre_rpms_def fl_numerals
      centre_curve_double_def)

lemma centre_curve_double_breakpoints:
  "centre_curve_double 7 = 880" "centre_curve_double 8 = 1120" "centre_curve_double 9 = 1500"
  "centre_curve_double 10 = 2150" "centre_curve_double 11 = 2400"
  by (simp_all add: centre_curve_double_def)

lemma centre_curve_double_close:
  assumes "7 \<le> x" and "x \<le> 11"
  shows "\<bar>centre_curve_double x - centre_curve x\<bar> \<le> 1 / 2 ^ 41"
proof -
  have seg: "\<bar>fl (fl (a * fl (x - x0)) + y) - (y + a * (x - x0))\<bar> \<le> 1 / 2 ^ 41"
    if "0 \<le> a" "a \<le> 650" "x0 \<le> x" "x < x0 + 1" "0 \<le> y" "y \<le> 2150" for a x0 y
    using fl_line_error [of a "x - x0" y] that by (simp add: add.commute)
  consider "x < 8" | "8 \<le> x" "x < 9" | "9 \<le> x" "x < 10" | "10 \<le> x" "x < 11" | "x = 11"
    using assms by linarith
  then show ?thesis
  proof cases
    case 1
    with assms seg [of 240 7 880] show ?thesis
      by (simp add: centre_curve_double_def centre_curve_def)
  next
    case 2
    with seg [of 380 8 1120] show ?thesis
      by (simp add: centre_curve_double_def centre_curve_def)
  next
    case 3
    with seg [of 650 9 1500] show ?thesis
      by (simp add: centre_curve_double_def centre_curve_def)
  next
    case 4
    with seg [of 250 10 2150] show ?thesis
      by (simp add: centre_curve_double_def centre_curve_def)
  next
    case 5
    then show ?thesis
      by (simp add: centre_curve_double_def centre_curve_def)
  qed
qed

lemma segment_value_double_Shooter_tables:
  assumes "Suc i < length Shooter_ranges"
    and "Shooter_ranges ! i < x" and "x < Shooter_ranges ! Suc i"
  shows "segment_value_double Shooter_ranges Shooter_centre_rpms i x = centre_curve_double x"
proof -
  from assms(1) have "i = 0 \<or> i = 1 \<or> i = 2 \<or> i = 3"
    by (auto simp add: Shooter_ranges_def)
  then show ?thesis
    using assms(2,3)
    by (auto simp add: segment_value_double_def Shooter_ranges_def Shooter_centre_rpms_def
        centre_curve_double_def fl_numerals)
qed

lemma set_range_double_Shooter_tables:
  assumes "ranges s = Shooter_ranges" and "centre_rpms s = Shooter_centre_rpms"
  shows "set_range_double d s =
     Inr (s\<lparr>in_range := (7 \<le> d \<and> d \<le> 11),
            centre_rpm := centre_curve_double (min 11 (max d 7)),
            outer_rpm := 5000\<rparr>)"
proof -
  have "7 \<le> min 11 (max d 7)" "min 11 (max d 7) \<le> (11::real)" by auto
  then have i: "interp_double (min 11 (max d 7)) Shooter_ranges Shooter_centre_rpms
      = Inr (centre_curve_double (min 11 (max d 7)))"
    by (rule interp_double_Shooter_tables)
  show ?thesis
  proof (cases "7 \<le> d \<and> d \<le> 11")
    case True
    then have "min 11 (max d 7) = d" by auto
    with i True show ?thesis
      by (simp add: set_range_double_def assms Shooter_ranges_ends)
  next
    case False
    with i show ?thesis
      by (auto simp add: set_range_double_def assms Shooter_ranges_ends)
  qed
qed

subsection \<open>Traces without a periodic update\<close>

lemma calls_of_simps:
  "calls_of c [] = 0"
  "calls_of c (x # xs) = (if x = c then Suc (calls_of c xs) else calls_of c xs)"
  "calls_of c (xs @ ys) = calls_of c xs + calls_of c ys"
  by (simp_all add: calls_of_def)

lemma step_no_execute:
  assumes "reachable s" and "m \<noteq> Execute"
  shows "\<exists>s' out. step m s = Inr (s', out) \<and> reachable s'
      \<and> calls_of StartPulse out = 0 \<and> inject s' = (inject s \<or> m = Fire)"
proof -
  from step_reachable_total [OF assms(1), of m]
  obtain s' out where st: "step m s = Inr (s', out)" by blast
  then have r: "reachable s'" using assms(1) reachable_step by blast
  from st assms(2) have "calls_of StartPulse out = 0 \<and> inject s' = (inject s \<or> m = Fire)"
    by (cases m)
      (auto simp add: on_enable_def Shooter_setup_def fire_def calls_of_simps
        set_range_reachable [OF assms(1)])
  with st r show ?thesis by blast
qed

lemma run_no_execute:
  assumes "reachable s" and "Execute \<notin> set ms"
  shows "\<exists>s' out. run ms s = Inr (s', out) \<and> reachable s'
      \<and> calls_of StartPulse out = 0 \<and> inject s' = (inject s \<or> Fire \<in> set ms)"
  using assms
proof (induction ms arbitrary: s)
  case Nil
  then show ?case by (simp add: calls_of_simps)
next
  case (Cons m ms)
  from Cons.prems have m: "m \<noteq> Execute" and ms: "Execute \<notin> set ms" by auto
  from step_no_execute [OF Cons.prems(1) m]
  obtain s1 out1 where s1: "step m s = Inr (s1, out1)" "reachable s1"
    "calls_of StartPulse out1 = 0" "inject s1 = (inject s \<or> m = Fire)" by blast
  from Cons.IH [OF s1(2) ms]
  obtain s' out where s': "run ms s1 = Inr (s', out)" "reachable s'"
    "calls_of StartPulse out = 0" "inject s' = (inject s1 \<or> Fire \<in> set ms)" by blast
  have "run (m # ms) s = Inr (s', out1 @ out)"
    using s1(1) s'(1) by simp
  moreover have "calls_of StartPulse (out1 @ out) = 0"
    using s1(3) s'(3) by (simp add: calls_of_simps)
  moreover have "inject s' = (inject s \<or> Fire \<in> set (m # ms))"
    using s1(4) s'(4) by auto
  ultimately show ?case using s'(2) by blast
qed

lemma execute_latch:
  "calls_of StartPulse (snd (execute s)) = (if inject s then 1 else 0)"
  "\<not> inject (fst (execute s))"
  by (simp_all add: execute_def calls_of_simps Let_def)

lemma reachable_set_range_9:
  "reachable (Shooter_new\<lparr>in_range := True, centre_rpm := 1500, outer_rpm := 5000\<rparr>)"
proof -
  have "step (SetRange 9) Shooter_new
      = Inr (Shooter_new\<lparr>in_range := True, centre_rpm := 1500, outer_rpm := 5000\<rparr>, [])"
    by (simp add: set_range_def interp_def Shooter_new_def Shooter_ranges_def
        Shooter_centre_rpms_def)
  with reachable_new show ?thesis by (rule reachable_step)
qed

subsection \<open>Setting the range\<close>

text \<open>
  Claim C1, as stated, fails. At the double nearest to 8.22, a distance inside the table,
  the stored target is the double 1203.6000000000004 while the piecewise-linear
  interpolation of that distance is 1203.60000000000024300561562995..., which is no
  double: the product and the sum of the interpolation are rounded. Both numbers are the
  fractions below.
\<close>

theorem set_range_double_counterexample:
  "Min (set Shooter_ranges) \<le> 4627448617123185 / 562949953421312
   \<and> 4627448617123185 / 562949953421312 \<le> Max (set Shooter_ranges)
   \<and> fl (4627448617123185 / 562949953421312) = 4627448617123185 / 562949953421312
   \<and> set_range_double (4627448617123185 / 562949953421312) Shooter_new
       = Inr (Shooter_new\<lparr>in_range := True,
                centre_rpm := 661686097595597 / 549755813888, outer_rpm := 5000\<rparr>)
   \<and> linear_interpolate (4627448617123185 / 562949953421312) Shooter_ranges
         Shooter_centre_rpms = 169391640984472815 / 140737488355328
   \<and> (661686097595597 / 549755813888 :: real) \<noteq> 169391640984472815 / 140737488355328"
  by (simp add: set_range_double_def interp_double_def Shooter_new_def Shooter_ranges_def
      Shooter_centre_rpms_def linear_interpolate_def segment_value_def
      fl_def ulp_def round_even_def Let_def)

text \<open>
  Claim C1, amended. For a shooter with the tables of the class and a distance \<open>d\<close>
  between the least and the greatest entry of the range table, \<^verbatim>\<open>set_range(d)\<close> returns
  normally with \<^verbatim>\<open>in_range\<close> true, and \<^verbatim>\<open>centre_rpm\<close> is the piecewise-linear interpolation
  of \<open>d\<close> over the two tables as double arithmetic computes it (the rounded line
  through the two breakpoints that bracket \<open>d\<close>): within \<open>2 ^ -41\<close> rpm
  (less than \<open>5 * 10 ^ -13\<close>) of the exact interpolation for every \<open>d\<close>, and equal to it
  when \<open>d\<close> is a breakpoint of the table; at the breakpoints 7, 9 and 11 the target is 880,
  1500 and 2400.
\<close>

theorem set_range_double_in_range:
  assumes "ranges s = Shooter_ranges" and "centre_rpms s = Shooter_centre_rpms"
    and "Min (set Shooter_ranges) \<le> d" and "d \<le> Max (set Shooter_ranges)"
  shows "\<exists>s'. set_range_double d s = Inr s' \<and> in_range s' \<and> is_in_range s'
      \<and> \<bar>centre_rpm s' - linear_interpolate d Shooter_ranges Shooter_centre_rpms\<bar>
          \<le> 1 / 2 ^ 41
      \<and> (d \<in> set Shooter_ranges
            \<longrightarrow> centre_rpm s' = linear_interpolate d Shooter_ranges Shooter_centre_rpms)
      \<and> (\<forall>i. Suc i < length Shooter_ranges \<and> Shooter_ranges ! i < d
              \<and> d < Shooter_ranges ! Suc i
            \<longrightarrow> centre_rpm s' = segment_value_double Shooter_ranges Shooter_centre_rpms i d)
      \<and> (d = 7 \<longrightarrow> centre_rpm s' = 880)
      \<and> (d = 9 \<longrightarrow> centre_rpm s' = 1500)
      \<and> (d = 11 \<longrightarrow> centre_rpm s' = 2400)"
proof -
  from assms(3,4) have d: "7 \<le> d" "d \<le> 11"
    by (simp_all add: Shooter_ranges_ends)
  then have m: "min 11 (max d 7) = d" by auto
  let ?s' = "s\<lparr>in_range := True, centre_rpm := centre_curve_double d, outer_rpm := 5000\<rparr>"
  have r: "set_range_double d s = Inr ?s'"
    using set_range_double_Shooter_tables [OF assms(1,2), of d] d m by simp
  have l: "linear_interpolate d Shooter_ranges Shooter_centre_rpms = centre_curve d"
    using d by (rule linear_interpolate_Shooter_tables)
  have f1: "in_range ?s' \<and> is_in_range ?s'"
    by (simp add: is_in_range_def)
  have f2: "\<bar>centre_rpm ?s' - linear_interpolate d Shooter_ranges Shooter_centre_rpms\<bar>
      \<le> 1 / 2 ^ 41"
    using centre_curve_double_close [OF d] by (simp add: l)
  have "d \<in> set Shooter_ranges \<longrightarrow> centre_curve_double d = centre_curve d"
    by (auto simp add: Shooter_ranges_def centre_curve_double_breakpoints centre_curve_def)
  then have f3: "d \<in> set Shooter_ranges
      \<longrightarrow> centre_rpm ?s' = linear_interpolate d Shooter_ranges Shooter_centre_rpms"
    unfolding l by simp
  have f4: "(d = 7 \<longrightarrow> centre_rpm ?s' = 880) \<and> (d = 9 \<longrightarrow> centre_rpm ?s' = 1500)
      \<and> (d = 11 \<longrightarrow> centre_rpm ?s' = 2400)"
    by (simp add: centre_curve_double_breakpoints)
  have f5: "\<forall>i. Suc i < length Shooter_ranges \<and> Shooter_ranges ! i < d
              \<and> d < Shooter_ranges ! Suc i
            \<longrightarrow> centre_rpm ?s' = segment_value_double Shooter_ranges Shooter_centre_rpms i d"
    by (simp add: segment_value_double_Shooter_tables)
  from r f1 f2 f3 f4 f5 show ?thesis by blast
qed

text \<open>
  The shooter as constructed, at the double nearest to 8.22 and at the breakpoint 9.
\<close>

theorem set_range_double_in_range_witness:
  "ranges Shooter_new = Shooter_ranges \<and> centre_rpms Shooter_new = Shooter_centre_rpms
   \<and> Min (set Shooter_ranges) \<le> 4627448617123185 / 562949953421312
   \<and> 4627448617123185 / 562949953421312 \<le> Max (set Shooter_ranges)
   \<and> (\<exists>s'. set_range_double (4627448617123185 / 562949953421312) Shooter_new = Inr s'
        \<and> in_range s'
        \<and> centre_rpm s' = 661686097595597 / 549755813888
        \<and> \<bar>centre_rpm s' - 169391640984472815 / 140737488355328\<bar> \<le> 1 / 2 ^ 41)
   \<and> Min (set Shooter_ranges) \<le> 9 \<and> 9 \<le> Max (set Shooter_ranges)
   \<and> (\<exists>s'. set_range_double 9 Shooter_new = Inr s' \<and> in_range s' \<and> centre_rpm s' = 1500)"
proof -
  let ?d = "4627448617123185 / 562949953421312 :: real"
  have t: "ranges Shooter_new = Shooter_ranges" "centre_rpms Shooter_new = Shooter_centre_rpms"
    by (simp_all add: Shooter_new_def)
  have h: "Min (set Shooter_ranges) \<le> ?d" "?d \<le> Max (set Shooter_ranges)"
    and h9: "Min (set Shooter_ranges) \<le> 9" "9 \<le> Max (set Shooter_ranges)"
    by (simp_all add: Shooter_ranges_ends)
  have e: "set_range_double ?d Shooter_new
       = Inr (Shooter_new\<lparr>in_range := True,
                centre_rpm := 661686097595597 / 549755813888, outer_rpm := 5000\<rparr>)"
    and l: "linear_interpolate ?d Shooter_ranges Shooter_centre_rpms
       = 169391640984472815 / 140737488355328"
    by (simp_all add: set_range_double_def interp_double_def Shooter_new_def Shooter_ranges_def
        Shooter_centre_rpms_def linear_interpolate_def segment_value_def
        fl_def ulp_def round_even_def Let_def)
  from set_range_double_in_range [OF t h]
  have a: "\<exists>s'. set_range_double ?d Shooter_new = Inr s' \<and> in_range s'
        \<and> centre_rpm s' = 661686097595597 / 549755813888
        \<and> \<bar>centre_rpm s' - 169391640984472815 / 140737488355328\<bar> \<le> 1 / 2 ^ 41"
    unfolding l e by auto
  from set_range_double_in_range [OF t h9]
  have b: "\<exists>s'. set_range_double 9 Shooter_new = Inr s' \<and> in_range s' \<and> centre_rpm s' = 1500"
    by blast
  from a b t h h9 show ?thesis by blast
qed

text \<open>
  Claim C4. For a reachable shooter and a distance \<open>d\<close> below the least or above the
  greatest entry of the range table, \<^verbatim>\<open>set_range(d)\<close> returns normally with \<^verbatim>\<open>in_range\<close>
  false, and its \<^verbatim>\<open>centre_rpm\<close> is the interpolation at the end of the table to which \<open>d\<close>
  is clamped: 880, the target that \<^verbatim>\<open>set_range\<close> gives at the least entry, for a \<open>d\<close> below,
  and 2400, the target at the greatest entry, for a \<open>d\<close> above. No arithmetic is done on
  this path, so the method with rounding returns the same state.
\<close>

theorem set_range_out_of_range:
  assumes "reachable s"
    and "d < Min (set Shooter_ranges) \<or> Max (set Shooter_ranges) < d"
  shows "\<exists>s' lo hi. set_range d s = Inr s' \<and> \<not> in_range s' \<and> \<not> is_in_range s'
      \<and> set_range (Min (set Shooter_ranges)) s = Inr lo
      \<and> set_range (Max (set Shooter_ranges)) s = Inr hi
      \<and> centre_rpm s' = (if d < Min (set Shooter_ranges) then centre_rpm lo else centre_rpm hi)
      \<and> centre_rpm s' =
          linear_interpolate (min (Max (set Shooter_ranges)) (max d (Min (set Shooter_ranges))))
            Shooter_ranges Shooter_centre_rpms
      \<and> centre_rpm s' = (if d < Min (set Shooter_ranges) then 880 else 2400)
      \<and> centre_rpm lo = 880 \<and> centre_rpm hi = 2400
      \<and> set_range_double d s = Inr s'"
proof -
  from assms(2) have d: "d < 7 \<or> 11 < d"
    by (simp add: Shooter_ranges_ends)
  then have m: "min 11 (max d 7) = (if d < 7 then 7 else 11)" by auto
  note t = reachable_invariant [OF assms(1)]
  let ?s' = "s\<lparr>in_range := False, centre_rpm := (if d < 7 then 880 else 2400),
      outer_rpm := 5000\<rparr>"
  have r: "set_range d s = Inr ?s'"
    using set_range_reachable [OF assms(1), of d] d m by (auto simp add: centre_curve_def)
  have rd: "set_range_double d s = Inr ?s'"
    using set_range_double_Shooter_tables [of s d] t d m
    by (auto simp add: centre_curve_double_breakpoints)
  have lo: "set_range 7 s = Inr (s\<lparr>in_range := True, centre_rpm := 880, outer_rpm := 5000\<rparr>)"
    using set_range_reachable [OF assms(1), of 7] by (simp add: centre_curve_def)
  have hi: "set_range 11 s = Inr (s\<lparr>in_range := True, centre_rpm := 2400, outer_rpm := 5000\<rparr>)"
    using set_range_reachable [OF assms(1), of 11] by (simp add: centre_curve_def)
  have l: "linear_interpolate (min 11 (max d 7)) Shooter_ranges Shooter_centre_rpms
      = (if d < 7 then 880 else 2400)"
    unfolding m by (simp add: linear_interpolate_Shooter_tables centre_curve_def)
  from r rd lo hi l show ?thesis
    by (simp add: Shooter_ranges_ends is_in_range_def)
qed

text \<open>
  The distances 5 and 15 on the shooter as constructed: the targets of 7 and of 11, which
  are 880 and 2400.
\<close>

theorem set_range_out_of_range_witness:
  "reachable Shooter_new
   \<and> (5 < Min (set Shooter_ranges) \<and> Max (set Shooter_ranges) < 15)
   \<and> (\<exists>a b. set_range 5 Shooter_new = Inr a \<and> set_range 7 Shooter_new = Inr b
        \<and> \<not> in_range a \<and> centre_rpm a = centre_rpm b \<and> centre_rpm a = 880)
   \<and> (\<exists>a b. set_range 15 Shooter_new = Inr a \<and> set_range 11 Shooter_new = Inr b
        \<and> \<not> in_range a \<and> centre_rpm a = centre_rpm b \<and> centre_rpm a = 2400)"
proof -
  have h5: "5 < Min (set Shooter_ranges) \<or> Max (set Shooter_ranges) < 5"
    and h15: "15 < Min (set Shooter_ranges) \<or> Max (set Shooter_ranges) < 15"
    by (simp_all add: Shooter_ranges_ends)
  from set_range_out_of_range [OF reachable_new h5]
  have "\<exists>a b. set_range 5 Shooter_new = Inr a \<and> set_range 7 Shooter_new = Inr b
        \<and> \<not> in_range a \<and> centre_rpm a = centre_rpm b \<and> centre_rpm a = 880"
    by (auto simp add: Shooter_ranges_ends)
  moreover from set_range_out_of_range [OF reachable_new h15]
  have "\<exists>a b. set_range 15 Shooter_new = Inr a \<and> set_range 11 Shooter_new = Inr b
        \<and> \<not> in_range a \<and> centre_rpm a = centre_rpm b \<and> centre_rpm a = 2400"
    by (auto simp add: Shooter_ranges_ends)
  ultimately show ?thesis
    using reachable_new by (simp add: Shooter_ranges_ends)
qed

text \<open>
  Claim C8. For a reachable shooter and every distance \<open>d\<close>, in range or not,
  \<^verbatim>\<open>set_range(d)\<close> returns normally and leaves \<^verbatim>\<open>outer_rpm\<close> at 5000.
\<close>

theorem set_range_outer_rpm:
  assumes "reachable s"
  shows "\<exists>s'. set_range d s = Inr s' \<and> outer_rpm s' = 5000"
  using set_range_reachable [OF assms, of d] by simp

text \<open>The distances 3 (clamped) and 10 (in range) on the shooter as constructed.\<close>

theorem set_range_outer_rpm_witness:
  "reachable Shooter_new
   \<and> (\<exists>s'. set_range 3 Shooter_new = Inr s' \<and> outer_rpm s' = 5000)
   \<and> (\<exists>s'. set_range 10 Shooter_new = Inr s' \<and> outer_rpm s' = 5000)"
  using set_range_outer_rpm [OF reachable_new, of 3]
    set_range_outer_rpm [OF reachable_new, of 10] reachable_new
  by simp



subsection \<open>The pulse latch\<close>

text \<open>
  Claim C5. Take a reachable shooter and any sequence of calls without \<^verbatim>\<open>execute()\<close>: the
  calls of one control cycle. The sequence returns normally and sends no
  \<^verbatim>\<open>startPulse()\<close>. The \<^verbatim>\<open>execute()\<close> that follows sends exactly one \<^verbatim>\<open>startPulse()\<close> when
  the latch was set at the start or the sequence holds a \<^verbatim>\<open>fire()\<close>, however many, and
  none otherwise; and it leaves the latch clear, so that the next cycle starts with a
  clear latch, as the first one does after construction.
\<close>

theorem pulse_latch:
  assumes "reachable s" and "Execute \<notin> set ms"
  shows "\<exists>s' out. run ms s = Inr (s', out)
      \<and> calls_of StartPulse out = 0
      \<and> calls_of StartPulse (snd (execute s')) = (if inject s \<or> Fire \<in> set ms then 1 else 0)
      \<and> \<not> inject (fst (execute s'))
      \<and> reachable (fst (execute s'))"
proof -
  from run_no_execute [OF assms]
  obtain s' out where r: "run ms s = Inr (s', out)" "reachable s'"
    "calls_of StartPulse out = 0" "inject s' = (inject s \<or> Fire \<in> set ms)" by blast
  have "step Execute s' = Inr (fst (execute s'), snd (execute s'))" by simp
  with r(2) have "reachable (fst (execute s'))" by (rule reachable_step)
  moreover have "calls_of StartPulse (snd (execute s'))
      = (if inject s \<or> Fire \<in> set ms then 1 else 0)"
    using r(4) by (simp add: execute_latch)
  ultimately show ?thesis
    using r(1,3) execute_latch(2) [of s'] by blast
qed

text \<open>
  From the shooter as constructed: two \<^verbatim>\<open>fire()\<close> calls around a \<^verbatim>\<open>set_range(9)\<close> give one
  pulse, a cycle without \<^verbatim>\<open>fire()\<close> gives none, and of two \<^verbatim>\<open>execute()\<close> calls after two
  \<^verbatim>\<open>fire()\<close> calls only the first one pulses.
\<close>

theorem pulse_latch_witness:
  "reachable Shooter_new \<and> \<not> inject Shooter_new
   \<and> Execute \<notin> set [Fire, SetRange 9, Fire] \<and> Execute \<notin> set [SetRange 9, OnEnable]
   \<and> (\<exists>s' out. run [Fire, SetRange 9, Fire] Shooter_new = Inr (s', out)
        \<and> calls_of StartPulse out = 0
        \<and> calls_of StartPulse (snd (execute s')) = 1
        \<and> \<not> inject (fst (execute s')))
   \<and> (\<exists>s' out. run [SetRange 9, OnEnable] Shooter_new = Inr (s', out)
        \<and> calls_of StartPulse out = 0
        \<and> calls_of StartPulse (snd (execute s')) = 0
        \<and> \<not> inject (fst (execute s')))
   \<and> run [Fire, Fire, Execute, Execute] Shooter_new
       = Inr (Shooter_new,
              [SetReference Centre 0, SetReference Outer 0, StartPulse,
               SetReference Centre 0, SetReference Outer 0])"
proof -
  have h1: "Execute \<notin> set [Fire, SetRange 9, Fire]"
    and h2: "Execute \<notin> set [SetRange 9, OnEnable]" by simp_all
  have n: "\<not> inject Shooter_new" by (simp add: Shooter_new_def)
  from pulse_latch [OF reachable_new h1]
  have a: "\<exists>s' out. run [Fire, SetRange 9, Fire] Shooter_new = Inr (s', out)
        \<and> calls_of StartPulse out = 0
        \<and> calls_of StartPulse (snd (execute s')) = 1
        \<and> \<not> inject (fst (execute s'))"
    by auto
  from pulse_latch [OF reachable_new h2] n
  have b: "\<exists>s' out. run [SetRange 9, OnEnable] Shooter_new = Inr (s', out)
        \<and> calls_of StartPulse out = 0
        \<and> calls_of StartPulse (snd (execute s')) = 0
        \<and> \<not> inject (fst (execute s'))"
    by auto
  have e: "run [Fire, Fire, Execute, Execute] Shooter_new
       = Inr (Shooter_new,
              [SetReference Centre 0, SetReference Outer 0, StartPulse,
               SetReference Centre 0, SetReference Outer 0])"
    by (simp add: fire_def execute_def Shooter_new_def)
  from a b e h1 h2 n reachable_new show ?thesis by blast
qed

subsection \<open>Speed, firing and readiness\<close>

text \<open>
  Claim C6. For a reachable shooter, whose tolerance is the 50 rpm of the constructor,
  \<^verbatim>\<open>is_at_speed()\<close> is true exactly when the centre target differs from the measured
  centre velocity by at most 50 and the outer target differs from the measured outer
  velocity by at most 50; the bound is inclusive.
\<close>

theorem is_at_speed_tolerance:
  assumes "reachable s"
  shows "is_at_speed s hw \<longleftrightarrow>
     \<bar>centre_rpm s - centre_encoder_velocity hw\<bar> \<le> 50
     \<and> \<bar>outer_rpm s - outer_encoder_velocity hw\<bar> \<le> 50"
  using reachable_invariant [OF assms] by (simp add: is_at_speed_def)

text \<open>
  After \<^verbatim>\<open>set_range(9)\<close> the targets are 1500 and 5000. Velocities of 1450 and 5050, both
  off by exactly 50, are at speed; a centre velocity of 1449.99 or an outer velocity of
  5050.01, off by 50.01, is not.
\<close>

theorem is_at_speed_tolerance_witness:
  "reachable (Shooter_new\<lparr>in_range := True, centre_rpm := 1500, outer_rpm := 5000\<rparr>)
   \<and> is_at_speed (Shooter_new\<lparr>in_range := True, centre_rpm := 1500, outer_rpm := 5000\<rparr>)
        \<lparr>centre_encoder_velocity = 1450, outer_encoder_velocity = 5050,
         loading_piston_get = True\<rparr>
   \<and> \<not> is_at_speed (Shooter_new\<lparr>in_range := True, centre_rpm := 1500, outer_rpm := 5000\<rparr>)
        \<lparr>centre_encoder_velocity = 1449.99, outer_encoder_velocity = 5000,
         loading_piston_get = True\<rparr>
   \<and> \<not> is_at_speed (Shooter_new\<lparr>in_range := True, centre_rpm := 1500, outer_rpm := 5000\<rparr>)
        \<lparr>centre_encoder_velocity = 1500, outer_encoder_velocity = 5050.01,
         loading_piston_get = True\<rparr>"
  using is_at_speed_tolerance [OF reachable_set_range_9,
      of "\<lparr>centre_encoder_velocity = 1450, outer_encoder_velocity = 5050,
         loading_piston_get = True\<rparr>"]
    is_at_speed_tolerance [OF reachable_set_range_9,
      of "\<lparr>centre_encoder_velocity = 1449.99, outer_encoder_velocity = 5000,
         loading_piston_get = True\<rparr>"]
    is_at_speed_tolerance [OF reachable_set_range_9,
      of "\<lparr>centre_encoder_velocity = 1500, outer_encoder_velocity = 5050.01,
         loading_piston_get = True\<rparr>"]
    reachable_set_range_9
  by simp

text \<open>
  Claim C7. For every state of the shooter and every report of the hardware,
  \<^verbatim>\<open>is_ready()\<close> is the conjunction of \<^verbatim>\<open>is_in_range()\<close>, \<^verbatim>\<open>is_at_speed()\<close> and the negation of
  \<^verbatim>\<open>is_firing()\<close>; and each of the eight combinations of the three values occurs in some
  reachable state with some report of the hardware.
\<close>

theorem is_ready_conjunction:
  "(is_ready s hw \<longleftrightarrow> is_in_range s \<and> is_at_speed s hw \<and> \<not> is_firing s hw)
   \<and> (\<forall>a b c. \<exists>s' hw'. reachable s'
          \<and> is_in_range s' = a \<and> is_at_speed s' hw' = b \<and> is_firing s' hw' = c
          \<and> is_ready s' hw' = (a \<and> b \<and> \<not> c))"
proof -
  have table: "\<exists>s' hw'. reachable s'
          \<and> is_in_range s' = a \<and> is_at_speed s' hw' = b \<and> is_firing s' hw' = c
          \<and> is_ready s' hw' = (a \<and> b \<and> \<not> c)" for a b c
  proof -
    define s' where "s' = (if a
      then Shooter_new\<lparr>in_range := True, centre_rpm := 1500, outer_rpm := 5000\<rparr>
      else Shooter_new)"
    define hw' where "hw' = \<lparr>centre_encoder_velocity = centre_rpm s' + (if b then 50 else 51),
      outer_encoder_velocity = outer_rpm s', loading_piston_get = (\<not> c)\<rparr>"
    have r: "reachable s'"
      using reachable_new reachable_set_range_9 by (simp add: s'_def)
    have t: "velocity_tolerance s' = 50"
      using reachable_invariant [OF r] by simp
    have "is_in_range s' = a"
      by (simp add: s'_def is_in_range_def Shooter_new_def)
    moreover have "is_at_speed s' hw' = b"
      by (simp add: is_at_speed_def hw'_def t)
    moreover have "is_firing s' hw' = c"
      by (simp add: is_firing_def hw'_def)
    ultimately show ?thesis
      using r by (auto simp add: is_ready_def)
  qed
  show ?thesis
    using table by (simp add: is_ready_def)
qed

text \<open>
  Claim C2 against the code. \<^verbatim>\<open>is_firing()\<close> is the negation of the solenoid's \<^verbatim>\<open>get()\<close>,
  so it is true exactly when the output of the solenoid is off. On a shooter as
  constructed, with a solenoid that nothing has switched on, it is true although no shot
  is under way, and \<^verbatim>\<open>is_ready()\<close> is false in every state as long as the solenoid is off.
  After \<^verbatim>\<open>fire()\<close> and \<^verbatim>\<open>execute()\<close>, which sends the one \<^verbatim>\<open>startPulse()\<close>, the output is on
  and \<^verbatim>\<open>is_firing()\<close> is false while the pulse is in progress. The claim, and the
  docstring of the method (true if the shooter is attempting a shot), say the opposite.
\<close>

theorem is_firing_inverted:
  "(is_firing s (hw\<lparr>loading_piston_get := Solenoid_get on\<rparr>) \<longleftrightarrow> \<not> on)
   \<and> is_firing Shooter_new (hw\<lparr>loading_piston_get := Solenoid_get Solenoid_initial\<rparr>)
   \<and> \<not> is_ready s (hw\<lparr>loading_piston_get := Solenoid_get Solenoid_initial\<rparr>)
   \<and> calls_of StartPulse (snd (execute (fire Shooter_new))) = 1
   \<and> Solenoid_get (Solenoid_after (snd (execute (fire Shooter_new))) Solenoid_initial)
   \<and> \<not> is_firing (fst (execute (fire Shooter_new)))
         (hw\<lparr>loading_piston_get :=
               Solenoid_get (Solenoid_after (snd (execute (fire Shooter_new)))
                 Solenoid_initial)\<rparr>)"
  by (simp add: is_firing_def is_ready_def Solenoid_get_def Solenoid_initial_def
      execute_def fire_def calls_of_simps)

subsection \<open>Enabling\<close>

text \<open>
  Claim C9. \<^verbatim>\<open>on_enable()\<close> leaves the state of the shooter as it was, in particular the two
  targets, \<^verbatim>\<open>in_range\<close> and the latch \<^verbatim>\<open>inject\<close>; it makes two hardware calls, one
  \<^verbatim>\<open>stopMotor()\<close> on each motor, none of them a velocity target or a pulse.
\<close>

theorem on_enable_frame:
  "fst (on_enable s) = s
   \<and> centre_rpm (fst (on_enable s)) = centre_rpm s
   \<and> outer_rpm (fst (on_enable s)) = outer_rpm s
   \<and> in_range (fst (on_enable s)) = in_range s
   \<and> inject (fst (on_enable s)) = inject s
   \<and> calls_of (StopMotor Centre) (snd (on_enable s)) = 1
   \<and> calls_of (StopMotor Outer) (snd (on_enable s)) = 1
   \<and> length (snd (on_enable s)) = 2
   \<and> filter is_SetReference (snd (on_enable s)) = []
   \<and> calls_of StartPulse (snd (on_enable s)) = 0"
  by (simp add: on_enable_def calls_of_simps is_SetReference_def)

subsection \<open>Construction and the tables\<close>

text \<open>
  Claim C3, as stated, fails: a class whose range table has one breakpoint and whose
  centre-RPM table has two, or whose tables are empty, constructs a shooter like any
  other.
\<close>

theorem Shooter_init_malformed_counterexample:
  "length [7::real] < 2 \<and> length [7::real] \<noteq> length [880, 1120::real]
   \<and> Shooter_init [7] [880, 1120]
       = Inr \<lparr>ranges = [7], centre_rpms = [880, 1120], outer_rpm = 0, centre_rpm = 0,
              inject = False, in_range = False, velocity_tolerance = 50\<rparr>
   \<and> Shooter_init [] [] 
       = Inr \<lparr>ranges = [], centre_rpms = [], outer_rpm = 0, centre_rpm = 0,
              inject = False, in_range = False, velocity_tolerance = 50\<rparr>"
  by (simp add: Shooter_init_def)

text \<open>
  Claim C3, amended. Construction raises nothing and checks nothing: whatever the tables
  of the class, it yields a shooter with both targets 0, the latch and \<^verbatim>\<open>in_range\<close> false
  and a tolerance of 50. The tables of the class as written are well formed: five entries
  each, the distances strictly increasing. A malformed table shows only in a later
  \<^verbatim>\<open>set_range\<close> call: \<^verbatim>\<open>IndexError\<close> on an empty range table, the \<^verbatim>\<open>ValueError\<close> of
  \<^verbatim>\<open>numpy.interp\<close> on non-empty tables of different lengths.
\<close>

theorem Shooter_init_total:
  "Shooter_init rs cs
     = Inr \<lparr>ranges = rs, centre_rpms = cs, outer_rpm = 0, centre_rpm = 0,
            inject = False, in_range = False, velocity_tolerance = 50\<rparr>
   \<and> Shooter_init Shooter_ranges Shooter_centre_rpms = Inr Shooter_new
   \<and> length Shooter_ranges = 5 \<and> length Shooter_centre_rpms = 5
   \<and> sorted_wrt (<) Shooter_ranges
   \<and> (ranges s = [] \<longrightarrow> set_range d s = Inl IndexError)
   \<and> (ranges s \<noteq> [] \<and> length (centre_rpms s) \<noteq> length (ranges s)
        \<longrightarrow> set_range d s = Inl ValueError)"
  by (auto simp add: Shooter_init_def Shooter_new_def Shooter_ranges_def
      Shooter_centre_rpms_def set_range_def interp_def Let_def split: prod.splits)

text \<open>
  The two kinds of malformed tables at the distance 9: empty tables, and one breakpoint
  against two speeds.
\<close>

theorem Shooter_init_total_witness:
  "ranges \<lparr>ranges = [], centre_rpms = [], outer_rpm = 0, centre_rpm = 0,
           inject = False, in_range = False, velocity_tolerance = 50\<rparr> = []
   \<and> set_range 9 \<lparr>ranges = [], centre_rpms = [], outer_rpm = 0, centre_rpm = 0,
           inject = False, in_range = False, velocity_tolerance = 50\<rparr> = Inl IndexError
   \<and> length [880, 1120 :: real] \<noteq> length [7 :: real]
   \<and> set_range 9 \<lparr>ranges = [7], centre_rpms = [880, 1120], outer_rpm = 0, centre_rpm = 0,
           inject = False, in_range = False, velocity_tolerance = 50\<rparr> = Inl ValueError
   \<and> Shooter_init [7] [880, 1120]
       = Inr \<lparr>ranges = [7], centre_rpms = [880, 1120], outer_rpm = 0, centre_rpm = 0,
              inject = False, in_range = False, velocity_tolerance = 50\<rparr>"
  using Shooter_init_total [of "[]" "[]"
      "\<lparr>ranges = [], centre_rpms = [], outer_rpm = 0, centre_rpm = 0,
        inject = False, in_range = False, velocity_tolerance = 50\<rparr>" 9]
    Shooter_init_total [of "[7]" "[880, 1120]"
      "\<lparr>ranges = [7], centre_rpms = [880, 1120], outer_rpm = 0, centre_rpm = 0,
        inject = False, in_range = False, velocity_tolerance = 50\<rparr>" 9]
  by simp

end
